theory Spec2Isabelle
  imports Main
begin

section \<open>Matrix classes bound by \<open>math.matrix.h\<close>\<close>

text \<open>
  The binding functions are templates over the bound C++ class \<open>T\<close>, of which they read
  the static members \<open>T::Cols\<close>, \<open>T::Rows\<close> and \<open>T::DiagonalSize\<close>. The classes passed to
  \<open>matrices\<close> are the nine rectangular ones and the two transformation classes, which
  are registered with \<open>Matrix3x3\<close> and \<open>Matrix4x4\<close> as their bases.
\<close>

datatype matrix_class =
    Matrix2x2 | Matrix2x3 | Matrix2x4
  | Matrix3x2 | Matrix3x3 | Matrix3x4
  | Matrix4x2 | Matrix4x3 | Matrix4x4
  | Matrix3 | Matrix4

text \<open>
  A class \<open>MatrixCxR\<close> is built from \<open>C\<close> column vectors of \<open>R\<close> components each (the
  \<open>py::init\<close> lines of \<open>matrices\<close>).
\<close>

fun Cols :: "matrix_class \<Rightarrow> nat" where
  "Cols Matrix2x2 = 2" | "Cols Matrix2x3 = 2" | "Cols Matrix2x4 = 2"
| "Cols Matrix3x2 = 3" | "Cols Matrix3x3 = 3" | "Cols Matrix3x4 = 3"
| "Cols Matrix4x2 = 4" | "Cols Matrix4x3 = 4" | "Cols Matrix4x4 = 4"
| "Cols Matrix3 = 3" | "Cols Matrix4 = 4"

fun Rows :: "matrix_class \<Rightarrow> nat" where
  "Rows Matrix2x2 = 2" | "Rows Matrix2x3 = 3" | "Rows Matrix2x4 = 4"
| "Rows Matrix3x2 = 2" | "Rows Matrix3x3 = 3" | "Rows Matrix3x4 = 4"
| "Rows Matrix4x2 = 2" | "Rows Matrix4x3 = 3" | "Rows Matrix4x4 = 4"
| "Rows Matrix3 = 3" | "Rows Matrix4 = 4"

text \<open>
  Modelled from the spec: \<open>T::DiagonalSize\<close> is declared by the wrapped library; the
  spec gives it as the diagonal size \<open>min(Cols, Rows)\<close>.
\<close>

definition DiagonalSize :: "matrix_class \<Rightarrow> nat" where
  "DiagonalSize T = min (Cols T) (Rows T)"

text \<open>
  \<open>matrix3\<close> and \<open>matrix4\<close> are declared as \<open>py::class_<Matrix3<T>, Matrix3x3<T>>\<close> and
  \<open>py::class_<Matrix4<T>, Matrix4x4<T>>\<close>: their instances are also instances of the
  square class of the same size. No other class has a base among the matrix classes.
\<close>

fun base :: "matrix_class \<Rightarrow> matrix_class option" where
  "base Matrix3 = Some Matrix3x3"
| "base Matrix4 = Some Matrix4x4"
| "base _ = None"

definition is_subclass :: "matrix_class \<Rightarrow> matrix_class \<Rightarrow> bool" where
  "is_subclass D C \<longleftrightarrow> D = C \<or> base D = Some C"

text \<open>
  A matrix value is its sequence of column vectors (column-major); a vector is the
  sequence of its components. The scalar type is the template parameter of \<open>matrices\<close>.
\<close>

type_synonym 'a vector = "'a list"
type_synonym 'a matrix = "'a vector list"

definition is_matrix :: "matrix_class \<Rightarrow> 'a matrix \<Rightarrow> bool" where
  "is_matrix T m \<longleftrightarrow> length m = Cols T \<and> (\<forall>c \<in> set m. length c = Rows T)"

text \<open>The exceptions a call can end with.\<close>

datatype error = IndexError | TypeError

section \<open>Diagonal constructor and accessor (\<open>rectangularMatrix\<close>)\<close>

text \<open>
  Modelled from the spec: \<open>T::fromDiagonal\<close> belongs to the wrapped library and is not in
  the file. The spec: it "builds a matrix with the given values on the diagonal, zero
  elsewhere", from a vector of \<open>min(Cols, Rows)\<close> components.
\<close>

definition fromDiagonal :: "matrix_class \<Rightarrow> 'a::zero vector \<Rightarrow> 'a matrix" where
  "fromDiagonal T diag =
     map (\<lambda>c. map (\<lambda>r. if r = c then diag ! c else 0) [0..<Rows T]) [0..<Cols T]"

text \<open>The static method \<open>from_diagonal\<close> hands its argument to \<open>T::fromDiagonal\<close>.\<close>

definition from_diagonal :: "matrix_class \<Rightarrow> 'a::zero vector \<Rightarrow> 'a matrix" where
  "from_diagonal T vector = fromDiagonal T vector"

text \<open>
  Modelled from the spec: the method \<open>diagonal\<close> returns \<open>self.diagonal()\<close> of the wrapped
  library, which is not in the file. The spec: it "returns the vector of min(Cols,Rows)
  diagonal elements".
\<close>

definition diagonal :: "matrix_class \<Rightarrow> 'a matrix \<Rightarrow> 'a vector" where
  "diagonal T self = map (\<lambda>i. self ! i ! i) [0..<DiagonalSize T]"

section \<open>Matrix multiplication (\<open>__matmul__\<close> in \<open>matrices\<close>)\<close>

text \<open>
  Modelled from the spec: every \<open>__matmul__\<close> lambda returns \<open>self*other\<close>, the product
  operator of the wrapped library, which is not in the file. The spec: "standard matrix
  multiplication", where the element at row \<open>i\<close>, column \<open>j\<close> of the product is the dot
  product of row \<open>i\<close> of the first factor with column \<open>j\<close> of the second; the product of
  \<open>A\<close> (Cols = K, Rows = M) and \<open>B\<close> (Cols = N, Rows = K) has N columns and M rows. The
  dot product accumulates the products of the components from zero, with the addition
  and multiplication of the scalar type, of which no law is assumed.
\<close>

definition dot :: "'a::{zero,plus,times} vector \<Rightarrow> 'a vector \<Rightarrow> 'a" where
  "dot xs ys = foldl (+) 0 (map2 (*) xs ys)"

definition row :: "'a matrix \<Rightarrow> nat \<Rightarrow> 'a vector" where
  "row m i = map (\<lambda>c. c ! i) m"

definition mul :: "matrix_class \<Rightarrow> 'a::{zero,plus,times} matrix \<Rightarrow> 'a matrix \<Rightarrow> 'a matrix" where
  "mul S self other = map (\<lambda>col. map (\<lambda>i. dot (row self i) col) [0..<Rows S]) other"

text \<open>
  The \<open>__matmul__\<close> overloads in the order of their registration: the class of \<open>self\<close>,
  the class of \<open>other\<close>, and the class of the result.
\<close>

definition matmul_overloads :: "(matrix_class \<times> matrix_class \<times> matrix_class) list" where
  "matmul_overloads =
    [(Matrix2x2, Matrix2x2, Matrix2x2), (Matrix2x2, Matrix3x2, Matrix3x2), (Matrix2x2, Matrix4x2, Matrix4x2),
     (Matrix2x3, Matrix2x2, Matrix2x3), (Matrix2x3, Matrix3x2, Matrix3x3), (Matrix2x3, Matrix4x2, Matrix4x3),
     (Matrix2x4, Matrix2x2, Matrix2x4), (Matrix2x4, Matrix3x2, Matrix3x4), (Matrix2x4, Matrix4x2, Matrix4x4),
     (Matrix3x2, Matrix2x3, Matrix2x2), (Matrix3x2, Matrix3x3, Matrix3x2), (Matrix3x2, Matrix4x3, Matrix4x2),
     (Matrix3x3, Matrix2x3, Matrix2x3), (Matrix3x3, Matrix3x3, Matrix3x3), (Matrix3x3, Matrix4x3, Matrix4x3),
     (Matrix3x4, Matrix2x3, Matrix2x4), (Matrix3x4, Matrix3x3, Matrix3x4), (Matrix3x4, Matrix4x3, Matrix4x4),
     (Matrix4x2, Matrix2x4, Matrix2x2), (Matrix4x2, Matrix3x4, Matrix3x2), (Matrix4x2, Matrix4x4, Matrix4x2),
     (Matrix4x3, Matrix2x4, Matrix2x3), (Matrix4x3, Matrix3x4, Matrix3x3), (Matrix4x3, Matrix4x4, Matrix4x3),
     (Matrix4x4, Matrix2x4, Matrix2x4), (Matrix4x4, Matrix3x4, Matrix3x4), (Matrix4x4, Matrix4x4, Matrix4x4)]"

text \<open>
  A call \<open>self @ other\<close> runs the first registered overload whose two parameter classes
  the arguments are instances of; when there is none the binding layer ends the call
  with a TypeError.
\<close>

definition matmul ::
    "matrix_class \<times> 'a::{zero,plus,times} matrix \<Rightarrow> matrix_class \<times> 'a matrix
       \<Rightarrow> error + matrix_class \<times> 'a matrix" where
  "matmul self other =
     (case find (\<lambda>(A, B, R). is_subclass (fst self) A \<and> is_subclass (fst other) B) matmul_overloads of
        None \<Rightarrow> Inl TypeError
      | Some (A, B, R) \<Rightarrow> Inr (R, mul A (snd self) (snd other)))"

section \<open>Set / get of columns and elements (\<open>rectangularMatrix\<close>)\<close>

text \<open>
  The setters mutate \<open>self\<close> in place and return nothing: they take the matrix and give
  back the outcome together with the matrix after the call. The index is a
  \<open>std::size_t\<close>, hence never negative.
\<close>

definition setitem_col ::
    "matrix_class \<Rightarrow> 'a matrix \<Rightarrow> nat \<Rightarrow> 'a vector \<Rightarrow> (error + unit) \<times> 'a matrix" where
  "setitem_col T self i val =
     (if i \<ge> Cols T then (Inl IndexError, self)
      else (Inr (), self[i := val]))"

definition getitem_col :: "matrix_class \<Rightarrow> 'a matrix \<Rightarrow> nat \<Rightarrow> error + 'a vector" where
  "getitem_col T self i =
     (if i \<ge> Cols T then Inl IndexError
      else Inr (self ! i))"

definition setitem_elem ::
    "matrix_class \<Rightarrow> 'a matrix \<Rightarrow> nat \<times> nat \<Rightarrow> 'a \<Rightarrow> (error + unit) \<times> 'a matrix" where
  "setitem_elem T self i val =
     (if fst i \<ge> Cols T \<or> snd i \<ge> Rows T then (Inl IndexError, self)
      else (Inr (), self[fst i := (self ! fst i)[snd i := val]]))"

definition getitem_elem :: "matrix_class \<Rightarrow> 'a matrix \<Rightarrow> nat \<times> nat \<Rightarrow> error + 'a" where
  "getitem_elem T self i =
     (if fst i \<ge> Cols T \<or> snd i \<ge> Rows T then Inl IndexError
      else Inr (self ! fst i ! snd i))"

section \<open>Static/member dispatch of \<open>scaling\<close> and \<open>rotation\<close>\<close>

text \<open>
  The shims take \<open>py::args\<close> and \<open>py::kwargs\<close>: any sequence of Python objects and any
  keyword arguments. Of an object, the shims only ask whether it is an instance of the
  class (\<open>py::isinstance\<close>).
\<close>

datatype 'a object = Instance matrix_class "'a matrix" | Vector "'a vector" | Scalar 'a

type_synonym 'a kwargs = "(string \<times> 'a object) list"

fun isinstance :: "matrix_class \<Rightarrow> 'a object \<Rightarrow> bool" where
  "isinstance C (Instance D m) = is_subclass D C"
| "isinstance C _ = False"

text \<open>
  The attributes that the shims look up on the class object (\<open>matrix3.attr("_iscaling")\<close>
  and so on): the member functions \<open>_iscaling\<close>, \<open>_irotation\<close> that extract the scaling
  and rotation part of an instance, and the static functions \<open>_sscaling\<close>, \<open>_srotation\<close>
  that build a matrix from parameters. They wrap functions of the wrapped library; here
  they are whatever the class object holds.
\<close>

record 'a py_class =
  iscaling :: "'a object list \<Rightarrow> 'a kwargs \<Rightarrow> error + 'a object"
  sscaling :: "'a object list \<Rightarrow> 'a kwargs \<Rightarrow> error + 'a object"
  irotation :: "'a object list \<Rightarrow> 'a kwargs \<Rightarrow> error + 'a object"
  srotation :: "'a object list \<Rightarrow> 'a kwargs \<Rightarrow> error + 'a object"

definition matrix3_scaling ::
    "'a py_class \<Rightarrow> 'a object list \<Rightarrow> 'a kwargs \<Rightarrow> error + 'a object" where
  "matrix3_scaling matrix3 args kwargs =
     (if length args \<noteq> 0 \<and> isinstance Matrix3 (args ! 0) then iscaling matrix3 args kwargs
      else sscaling matrix3 args kwargs)"

definition matrix3_rotation ::
    "'a py_class \<Rightarrow> 'a object list \<Rightarrow> 'a kwargs \<Rightarrow> error + 'a object" where
  "matrix3_rotation matrix3 args kwargs =
     (if length args \<noteq> 0 \<and> isinstance Matrix3 (args ! 0) then irotation matrix3 args kwargs
      else srotation matrix3 args kwargs)"

definition matrix4_scaling ::
    "'a py_class \<Rightarrow> 'a object list \<Rightarrow> 'a kwargs \<Rightarrow> error + 'a object" where
  "matrix4_scaling matrix4 args kwargs =
     (if length args \<noteq> 0 \<and> isinstance Matrix4 (args ! 0) then iscaling matrix4 args kwargs
      else sscaling matrix4 args kwargs)"

definition matrix4_rotation ::
    "'a py_class \<Rightarrow> 'a object list \<Rightarrow> 'a kwargs \<Rightarrow> error + 'a object" where
  "matrix4_rotation matrix4 args kwargs =
     (if length args \<noteq> 0 \<and> isinstance Matrix4 (args ! 0) then irotation matrix4 args kwargs
      else srotation matrix4 args kwargs)"

text \<open>
  How the four attributes are registered. \<open>_iscaling\<close> and \<open>_irotation\<close> are bound with
  \<open>.def\<close> to the member functions \<open>scaling() const\<close> and \<open>rotation() const\<close>, which take
  no parameter besides \<open>self\<close> and are registered without argument names: the binding
  layer calls the member when the arguments are exactly one instance of the class and no
  keyword argument, and ends every other call with a TypeError.
\<close>

fun def_member ::
    "matrix_class \<Rightarrow> ('a matrix \<Rightarrow> 'a object) \<Rightarrow> 'a object list \<Rightarrow> 'a kwargs \<Rightarrow> error + 'a object" where
  "def_member C f [Instance D m] [] = (if is_subclass D C then Inr (f m) else Inl TypeError)"
| "def_member C f args kwargs = Inl TypeError"

text \<open>
  \<open>_sscaling\<close> and \<open>_srotation\<close> are bound with \<open>.def_static\<close> to static functions of the
  wrapped library (for \<open>_srotation\<close> through a lambda that only converts the angle). The
  binding layer converts the arguments to the parameters of the function and calls it,
  or ends the call with a TypeError when they do not convert. Which objects convert to a
  vector or an angle is settled where those classes are registered, outside the file:
  the function together with that conversion is the parameter \<open>f\<close>, with \<open>None\<close> for
  arguments that do not convert.
\<close>

definition def_static ::
    "('a object list \<Rightarrow> 'a kwargs \<Rightarrow> 'a object option) \<Rightarrow> 'a object list \<Rightarrow> 'a kwargs
       \<Rightarrow> error + 'a object" where
  "def_static f args kwargs = (case f args kwargs of None \<Rightarrow> Inl TypeError | Some r \<Rightarrow> Inr r)"

text \<open>
  The functions of the wrapped library that the four attributes end in. They are not in
  the file and are parameters here: the member functions \<open>scaling() const\<close> (a vector)
  and \<open>rotation() const\<close> (a matrix) of a transformation matrix, and the static
  \<open>scaling\<close> and \<open>rotation\<close> constructors.
\<close>

record 'a library =
  scaling :: "'a matrix \<Rightarrow> 'a vector"
  rotation :: "'a matrix \<Rightarrow> 'a matrix"
  static_scaling :: "'a object list \<Rightarrow> 'a kwargs \<Rightarrow> 'a object option"
  static_rotation :: "'a object list \<Rightarrow> 'a kwargs \<Rightarrow> 'a object option"

text \<open>
  The class objects \<open>matrix3\<close> and \<open>matrix4\<close> as the file fills them: the rotation part
  of a \<open>Matrix3\<close> is a \<open>Matrix2x2\<close>, that of a \<open>Matrix4\<close> a \<open>Matrix3x3\<close>.
\<close>

definition matrix3_class :: "'a library \<Rightarrow> 'a py_class" where
  "matrix3_class L =
     \<lparr>iscaling = def_member Matrix3 (\<lambda>m. Vector (scaling L m)),
      sscaling = def_static (static_scaling L),
      irotation = def_member Matrix3 (\<lambda>m. Instance Matrix2x2 (rotation L m)),
      srotation = def_static (static_rotation L)\<rparr>"

definition matrix4_class :: "'a library \<Rightarrow> 'a py_class" where
  "matrix4_class L =
     \<lparr>iscaling = def_member Matrix4 (\<lambda>m. Vector (scaling L m)),
      sscaling = def_static (static_scaling L),
      irotation = def_member Matrix4 (\<lambda>m. Instance Matrix3x3 (rotation L m)),
      srotation = def_static (static_rotation L)\<rparr>"

section \<open>Auxiliary facts\<close>

lemma def_member_further_arguments:
  "length args \<noteq> 1 \<or> kwargs \<noteq> [] \<Longrightarrow> def_member C f args kwargs = Inl TypeError"
  by (induction C f args kwargs rule: def_member.induct) auto




lemma matmul_cases:
  "(Rows B \<noteq> Cols S \<and> matmul (S, a) (B, b) = Inl TypeError) \<or>
   (Rows B = Cols S \<and>
    (\<exists>R. Cols R = Cols B \<and> Rows R = Rows S \<and>
         matmul (S, a) (B, b) =
           Inr (R, map (\<lambda>col. map (\<lambda>i. dot (row a i) col) [0..<Rows S]) b)))"
  by (cases S; cases B; simp add: matmul_def matmul_overloads_def is_subclass_def mul_def)

section \<open>Dispatch of \<open>scaling\<close> and \<open>rotation\<close>\<close>

text \<open>
  C1, amended. For Matrix3 and Matrix4, \<open>scaling\<close> and \<open>rotation\<close> dispatch on the first
  argument at call time. A call whose first positional argument is an instance of the
  class is passed, with all its arguments, to the member extraction: it returns the
  scaling or rotation part of that instance when the instance is the only argument, and
  ends in a TypeError when further positional or keyword arguments follow, since the
  member takes none. Every other call, also one with no positional arguments, is passed
  to the static constructor, which builds a scaling or rotation matrix from the given
  parameters.
\<close>

theorem scaling_rotation_dispatch:
  "(length args \<noteq> 0 \<and> isinstance Matrix3 (args ! 0) \<longrightarrow>
      matrix3_scaling (matrix3_class L3) args kwargs = iscaling (matrix3_class L3) args kwargs \<and>
      matrix3_rotation (matrix3_class L3) args kwargs = irotation (matrix3_class L3) args kwargs \<and>
      (length args \<noteq> 1 \<or> kwargs \<noteq> [] \<longrightarrow>
         matrix3_scaling (matrix3_class L3) args kwargs = Inl TypeError \<and>
         matrix3_rotation (matrix3_class L3) args kwargs = Inl TypeError)) \<and>
   (isinstance Matrix3 (Instance D3 m3) \<longrightarrow>
      matrix3_scaling (matrix3_class L3) [Instance D3 m3] [] = Inr (Vector (scaling L3 m3)) \<and>
      matrix3_rotation (matrix3_class L3) [Instance D3 m3] []
        = Inr (Instance Matrix2x2 (rotation L3 m3))) \<and>
   (\<not> (length args \<noteq> 0 \<and> isinstance Matrix3 (args ! 0)) \<longrightarrow>
      matrix3_scaling (matrix3_class L3) args kwargs = def_static (static_scaling L3) args kwargs \<and>
      matrix3_rotation (matrix3_class L3) args kwargs
        = def_static (static_rotation L3) args kwargs) \<and>
   matrix3_scaling (matrix3_class L3) [] kwargs = def_static (static_scaling L3) [] kwargs \<and>
   matrix3_rotation (matrix3_class L3) [] kwargs = def_static (static_rotation L3) [] kwargs \<and>
   (length args \<noteq> 0 \<and> isinstance Matrix4 (args ! 0) \<longrightarrow>
      matrix4_scaling (matrix4_class L4) args kwargs = iscaling (matrix4_class L4) args kwargs \<and>
      matrix4_rotation (matrix4_class L4) args kwargs = irotation (matrix4_class L4) args kwargs \<and>
      (length args \<noteq> 1 \<or> kwargs \<noteq> [] \<longrightarrow>
         matrix4_scaling (matrix4_class L4) args kwargs = Inl TypeError \<and>
         matrix4_rotation (matrix4_class L4) args kwargs = Inl TypeError)) \<and>
   (isinstance Matrix4 (Instance D4 m4) \<longrightarrow>
      matrix4_scaling (matrix4_class L4) [Instance D4 m4] [] = Inr (Vector (scaling L4 m4)) \<and>
      matrix4_rotation (matrix4_class L4) [Instance D4 m4] []
        = Inr (Instance Matrix3x3 (rotation L4 m4))) \<and>
   (\<not> (length args \<noteq> 0 \<and> isinstance Matrix4 (args ! 0)) \<longrightarrow>
      matrix4_scaling (matrix4_class L4) args kwargs = def_static (static_scaling L4) args kwargs \<and>
      matrix4_rotation (matrix4_class L4) args kwargs
        = def_static (static_rotation L4) args kwargs) \<and>
   matrix4_scaling (matrix4_class L4) [] kwargs = def_static (static_scaling L4) [] kwargs \<and>
   matrix4_rotation (matrix4_class L4) [] kwargs = def_static (static_rotation L4) [] kwargs"
  by (simp add: matrix3_scaling_def matrix3_rotation_def matrix4_scaling_def
        matrix4_rotation_def matrix3_class_def matrix4_class_def
        def_member_further_arguments)

theorem scaling_rotation_dispatch_witness:
  "isinstance Matrix3 (Instance Matrix3 [[2, 0, 0], [0, 3, 0], [0, 0, 1 :: int]]) \<and>
   matrix3_scaling
     (matrix3_class
        \<lparr>scaling = (\<lambda>m. [m ! 0 ! 0, m ! 1 ! 1]), rotation = (\<lambda>m. [[1, 0], [0, 1]]),
         static_scaling = (\<lambda>args kwargs. None), static_rotation = (\<lambda>args kwargs. None)\<rparr>)
     [Instance Matrix3 [[2, 0, 0], [0, 3, 0], [0, 0, 1 :: int]]] []
     = Inr (Vector [2, 3]) \<and>
   matrix3_rotation
     (matrix3_class
        \<lparr>scaling = (\<lambda>m. [m ! 0 ! 0, m ! 1 ! 1]), rotation = (\<lambda>m. [[1, 0], [0, 1]]),
         static_scaling = (\<lambda>args kwargs. None), static_rotation = (\<lambda>args kwargs. None)\<rparr>)
     [Instance Matrix3 [[2, 0, 0], [0, 3, 0], [0, 0, 1 :: int]]] []
     = Inr (Instance Matrix2x2 [[1, 0], [0, 1]]) \<and>
   \<not> isinstance Matrix4 (Instance Matrix3 [[2, 0, 0], [0, 3, 0], [0, 0, 1 :: int]]) \<and>
   matrix4_scaling
     (matrix4_class
        \<lparr>scaling = (\<lambda>m. [m ! 0 ! 0, m ! 1 ! 1]), rotation = (\<lambda>m. [[1, 0], [0, 1]]),
         static_scaling = (\<lambda>args kwargs. None), static_rotation = (\<lambda>args kwargs. None)\<rparr>)
     [Instance Matrix3 [[2, 0, 0], [0, 3, 0], [0, 0, 1 :: int]]] []
     = Inl TypeError"
  using scaling_rotation_dispatch
    [where ?args = "[Instance Matrix3 [[2, 0, 0], [0, 3, 0], [0, 0, 1 :: int]]]"
       and ?kwargs = "[]"
       and ?D3.0 = Matrix3 and ?m3.0 = "[[2, 0, 0], [0, 3, 0], [0, 0, 1 :: int]]"
       and ?D4.0 = Matrix3 and ?m4.0 = "[[2, 0, 0], [0, 3, 0], [0, 0, 1 :: int]]"
       and ?L3.0 = "\<lparr>scaling = (\<lambda>m. [m ! 0 ! 0, m ! 1 ! 1]), rotation = (\<lambda>m. [[1, 0], [0, 1]]),
         static_scaling = (\<lambda>args kwargs. None), static_rotation = (\<lambda>args kwargs. None)\<rparr>"
       and ?L4.0 = "\<lparr>scaling = (\<lambda>m. [m ! 0 ! 0, m ! 1 ! 1]), rotation = (\<lambda>m. [[1, 0], [0, 1]]),
         static_scaling = (\<lambda>args kwargs. None), static_rotation = (\<lambda>args kwargs. None)\<rparr>"]
  by (simp add: is_subclass_def def_static_def matrix3_class_def matrix4_class_def)

text \<open>
  C1 as stated fails: \<open>Matrix3.scaling(m, Vector2(2, 3))\<close> has an instance of the class
  as its first positional argument, yet the call does not return the scaling part of
  \<open>m\<close>: it ends in a TypeError, whatever the wrapped library's functions are (here
  stand-ins that are right on diagonal matrices).
\<close>

theorem scaling_rotation_dispatch_counterexample:
  "isinstance Matrix3 (Instance Matrix3 [[2, 0, 0], [0, 3, 0], [0, 0, 1 :: int]]) \<and>
   matrix3_scaling
     (matrix3_class
        \<lparr>scaling = (\<lambda>m. [m ! 0 ! 0, m ! 1 ! 1]), rotation = (\<lambda>m. [[1, 0], [0, 1]]),
         static_scaling = (\<lambda>args kwargs. None), static_rotation = (\<lambda>args kwargs. None)\<rparr>)
     [Instance Matrix3 [[2, 0, 0], [0, 3, 0], [0, 0, 1 :: int]], Vector [2, 3]] []
     = Inl TypeError"
  by (simp add: matrix3_scaling_def matrix3_class_def is_subclass_def)

section \<open>Properties of the index accessors\<close>

lemma is_matrix_col_length: "is_matrix T m \<Longrightarrow> i < Cols T \<Longrightarrow> length (m ! i) = Rows T"
  by (simp add: is_matrix_def)

lemma is_matrix_update_col:
  assumes "is_matrix T m" and "length v = Rows T"
  shows "is_matrix T (m[i := v])"
proof -
  have "set (m[i := v]) \<subseteq> insert v (set m)"
    by (rule set_update_subset_insert)
  with assms show ?thesis
    by (auto simp: is_matrix_def)
qed




section \<open>Matrix multiplication\<close>

text \<open>In exact arithmetic \<open>dot\<close> is the usual sum of the products of the components.\<close>

lemma foldl_plus_sum_list:
  fixes zs :: "'a::monoid_add list"
  shows "foldl (+) a zs = a + sum_list zs"
  by (induction zs arbitrary: a) (simp_all add: add.assoc)

lemma dot_eq_sum:
  fixes xs ys :: "'a::semiring_0 list"
  shows "dot xs ys = (\<Sum>k < min (length xs) (length ys). xs ! k * ys ! k)"
proof -
  let ?zs = "map2 (*) xs ys"
  have "dot xs ys = sum_list ?zs"
    by (simp add: dot_def foldl_plus_sum_list)
  also have "\<dots> = (\<Sum>k = 0..<length ?zs. ?zs ! k)"
    by (rule sum_list_sum_nth)
  also have "\<dots> = (\<Sum>k < min (length xs) (length ys). xs ! k * ys ! k)"
    by (rule sum.cong) (auto simp: lessThan_atLeast0)
  finally show ?thesis .
qed

lemma matmul_overloads_shapes:
  "\<forall>(A, B, R) \<in> set matmul_overloads. Rows B = Cols A \<and> Cols R = Cols B \<and> Rows R = Rows A"
  by (simp add: matmul_overloads_def)

lemma is_matrix_product:
  assumes "is_matrix B b" and "Cols R = Cols B" and "Rows R = Rows S"
  shows "is_matrix R (map (\<lambda>col. map (\<lambda>i. dot (row a i) col) [0..<Rows S]) b)"
  using assms by (auto simp: is_matrix_def)

lemma product_nth:
  assumes "is_matrix B b" and "j < Cols B" and "i < Rows S"
  shows "map (\<lambda>col. map (\<lambda>i. dot (row a i) col) [0..<Rows S]) b ! j ! i = dot (row a i) (b ! j)"
  using assms by (simp add: is_matrix_def)

text \<open>
  C3. The product of a matrix of class \<open>S\<close> (\<open>c1\<close> columns, \<open>r1\<close> rows) by one of class
  \<open>B\<close> (\<open>c2\<close> columns, \<open>r2\<close> rows) is defined exactly when \<open>r2 = c1\<close>; otherwise no
  overload takes the call. When defined, the result has \<open>c2\<close> columns and \<open>r1\<close> rows
  and is the standard matrix product: its element at column \<open>j\<close>, row \<open>i\<close> is the dot
  product of row \<open>i\<close> of the first factor with column \<open>j\<close> of the second. Each of the
  registered \<open>__matmul__\<close> overloads follows the rule.
\<close>

theorem matmul_defined_iff_and_shape:
  "(matmul (S, a) (B, b) = Inl TypeError \<longleftrightarrow> Rows B \<noteq> Cols S) \<and>
   ((\<exists>R p. matmul (S, a) (B, b) = Inr (R, p)) \<longleftrightarrow> Rows B = Cols S) \<and>
   (\<forall>R p. matmul (S, a) (B, b) = Inr (R, p) \<longrightarrow>
      Cols R = Cols B \<and> Rows R = Rows S \<and>
      (is_matrix S a \<and> is_matrix B b \<longrightarrow>
         is_matrix R p \<and> (\<forall>j < Cols R. \<forall>i < Rows R. p ! j ! i = dot (row a i) (b ! j)))) \<and>
   (\<forall>(A, B', R) \<in> set matmul_overloads.
      Rows B' = Cols A \<and> Cols R = Cols B' \<and> Rows R = Rows A)"
proof -
  let ?p = "map (\<lambda>col. map (\<lambda>i. dot (row a i) col) [0..<Rows S]) b"
  from matmul_cases [of B S a b]
  consider (undefined) "Rows B \<noteq> Cols S" "matmul (S, a) (B, b) = Inl TypeError"
    | (defined) R where "Rows B = Cols S" "Cols R = Cols B" "Rows R = Rows S"
        "matmul (S, a) (B, b) = Inr (R, ?p)"
    by blast
  then have "(matmul (S, a) (B, b) = Inl TypeError \<longleftrightarrow> Rows B \<noteq> Cols S) \<and>
   ((\<exists>R p. matmul (S, a) (B, b) = Inr (R, p)) \<longleftrightarrow> Rows B = Cols S) \<and>
   (\<forall>R p. matmul (S, a) (B, b) = Inr (R, p) \<longrightarrow>
      Cols R = Cols B \<and> Rows R = Rows S \<and>
      (is_matrix S a \<and> is_matrix B b \<longrightarrow>
         is_matrix R p \<and> (\<forall>j < Cols R. \<forall>i < Rows R. p ! j ! i = dot (row a i) (b ! j))))"
  proof cases
    case undefined
    then show ?thesis by simp
  next
    case (defined R)
    have "is_matrix B b \<Longrightarrow> is_matrix R ?p"
      using defined(2,3) by (simp add: is_matrix_product)
    moreover have "is_matrix B b \<Longrightarrow> j < Cols R \<Longrightarrow> i < Rows R \<Longrightarrow> ?p ! j ! i = dot (row a i) (b ! j)" for i j
      using defined(2,3) product_nth [of B b j i S a] by simp
    ultimately show ?thesis
      using defined by auto
  qed
  with matmul_overloads_shapes show ?thesis by blast
qed

theorem matmul_defined_iff_and_shape_witness:
  "Rows Matrix4x3 = Cols Matrix3x2 \<and>
   is_matrix Matrix3x2 [[1, 2], [3, 4], [5, 6 :: int]] \<and>
   is_matrix Matrix4x3 [[1, 0, 0], [0, 1, 0], [0, 0, 1], [1, 1, 1 :: int]] \<and>
   matmul (Matrix3x2, [[1, 2], [3, 4], [5, 6 :: int]])
          (Matrix4x3, [[1, 0, 0], [0, 1, 0], [0, 0, 1], [1, 1, 1]])
     = Inr (Matrix4x2, [[1, 2], [3, 4], [5, 6], [9, 12]]) \<and>
   is_matrix Matrix4x2 [[1, 2], [3, 4], [5, 6], [9, 12 :: int]] \<and>
   Rows Matrix3x2 \<noteq> Cols Matrix4x3 \<and>
   matmul (Matrix4x3, [[1, 0, 0], [0, 1, 0], [0, 0, 1], [1, 1, 1 :: int]])
          (Matrix3x2, [[1, 2], [3, 4], [5, 6]])
     = Inl TypeError \<and>
   (Matrix3x2, Matrix4x3, Matrix4x2) \<in> set matmul_overloads"
proof -
  let ?a = "[[1, 2], [3, 4], [5, 6 :: int]]"
  let ?b = "[[1, 0, 0], [0, 1, 0], [0, 0, 1], [1, 1, 1 :: int]]"
  have ha: "is_matrix Matrix3x2 ?a" and hb: "is_matrix Matrix4x3 ?b"
    by (simp_all add: is_matrix_def)
  have eq: "matmul (Matrix3x2, ?a) (Matrix4x3, ?b) = Inr (Matrix4x2, [[1, 2], [3, 4], [5, 6], [9, 12]])"
    by code_simp
  have reg: "(Matrix3x2, Matrix4x3, Matrix4x2) \<in> set matmul_overloads"
    by (simp add: matmul_overloads_def)
  from matmul_defined_iff_and_shape [of Matrix3x2 ?a Matrix4x3 ?b] ha hb eq
  have "is_matrix Matrix4x2 [[1, 2], [3, 4], [5, 6], [9, 12 :: int]]"
    by blast
  moreover from matmul_defined_iff_and_shape [of Matrix4x3 ?b Matrix3x2 ?a]
  have "matmul (Matrix4x3, ?b) (Matrix3x2, ?a) = Inl TypeError"
    by simp
  ultimately show ?thesis
    using ha hb eq reg by simp
qed

lemma dot_2:
  assumes "length xs = 2" and "length ys = 2"
  shows "dot xs ys = 0 + xs ! 0 * ys ! 0 + xs ! 1 * ys ! 1"
proof -
  from assms obtain x0 x1 y0 y1 where "xs = [x0, x1]" and "ys = [y0, y1]"
    by (auto simp: length_Suc_conv numeral_2_eq_2)
  then show ?thesis by (simp add: dot_def)
qed

lemma dot_3:
  assumes "length xs = 3" and "length ys = 3"
  shows "dot xs ys = 0 + xs ! 0 * ys ! 0 + xs ! 1 * ys ! 1 + xs ! 2 * ys ! 2"
proof -
  from assms obtain x0 x1 x2 y0 y1 y2 where "xs = [x0, x1, x2]" and "ys = [y0, y1, y2]"
    by (auto simp: length_Suc_conv numeral_3_eq_3)
  then show ?thesis by (simp add: dot_def)
qed

lemma row_2: "length m = 2 \<Longrightarrow> row m i = [m ! 0 ! i, m ! 1 ! i]"
  by (auto simp: row_def length_Suc_conv numeral_2_eq_2)

lemma row_3: "length m = 3 \<Longrightarrow> row m i = [m ! 0 ! i, m ! 1 ! i, m ! 2 ! i]"
  by (auto simp: row_def length_Suc_conv numeral_3_eq_3)

text \<open>
  C4, amended. Multiplying a matrix of 2 columns and 3 rows by one of 3 columns and
  2 rows yields a matrix of 3 columns and 3 rows; multiplying a matrix of 3 columns and
  2 rows by one of 2 columns and 3 rows yields a matrix of 2 columns and 2 rows. In
  both products the element at row \<open>i\<close>, column \<open>j\<close> is the dot product of row \<open>i\<close> of
  the first factor with column \<open>j\<close> of the second, for all inputs.
\<close>

theorem matmul_2x3_by_3x2:
  assumes "is_matrix Matrix2x3 a" and "is_matrix Matrix3x2 b"
  shows "(\<exists>p. matmul (Matrix2x3, a) (Matrix3x2, b) = Inr (Matrix3x3, p) \<and>
              is_matrix Matrix3x3 p \<and>
              (\<forall>j < 3. \<forall>i < 3. p ! j ! i = 0 + a ! 0 ! i * b ! j ! 0 + a ! 1 ! i * b ! j ! 1)) \<and>
         (\<exists>q. matmul (Matrix3x2, b) (Matrix2x3, a) = Inr (Matrix2x2, q) \<and>
              is_matrix Matrix2x2 q \<and>
              (\<forall>j < 2. \<forall>i < 2. q ! j ! i =
                 0 + b ! 0 ! i * a ! j ! 0 + b ! 1 ! i * a ! j ! 1 + b ! 2 ! i * a ! j ! 2))"
proof (rule conjI)
  let ?p = "mul Matrix2x3 a b"
  have eq: "matmul (Matrix2x3, a) (Matrix3x2, b) = Inr (Matrix3x3, ?p)"
    by (simp add: matmul_def matmul_overloads_def is_subclass_def)
  have m: "is_matrix Matrix3x3 ?p"
    using assms(2) by (auto simp: mul_def is_matrix_def)
  have el: "?p ! j ! i = 0 + a ! 0 ! i * b ! j ! 0 + a ! 1 ! i * b ! j ! 1"
    if "j < 3" and "i < 3" for i j
  proof -
    from assms(2) that have lb: "j < length b" "length (b ! j) = 2"
      by (simp_all add: is_matrix_def)
    from assms(1) have la: "length a = 2"
      by (simp add: is_matrix_def)
    from lb that have "?p ! j ! i = dot (row a i) (b ! j)"
      by (simp add: mul_def)
    also have "\<dots> = 0 + row a i ! 0 * b ! j ! 0 + row a i ! 1 * b ! j ! 1"
      using la lb(2) by (intro dot_2) (simp_all add: row_def)
    finally show ?thesis
      using la by (simp add: row_2)
  qed
  from eq m el show "\<exists>p. matmul (Matrix2x3, a) (Matrix3x2, b) = Inr (Matrix3x3, p) \<and>
              is_matrix Matrix3x3 p \<and>
              (\<forall>j < 3. \<forall>i < 3. p ! j ! i = 0 + a ! 0 ! i * b ! j ! 0 + a ! 1 ! i * b ! j ! 1)"
    by blast
next
  let ?q = "mul Matrix3x2 b a"
  have eq: "matmul (Matrix3x2, b) (Matrix2x3, a) = Inr (Matrix2x2, ?q)"
    by (simp add: matmul_def matmul_overloads_def is_subclass_def)
  have m: "is_matrix Matrix2x2 ?q"
    using assms(1) by (auto simp: mul_def is_matrix_def)
  have el: "?q ! j ! i =
      0 + b ! 0 ! i * a ! j ! 0 + b ! 1 ! i * a ! j ! 1 + b ! 2 ! i * a ! j ! 2"
    if "j < 2" and "i < 2" for i j
  proof -
    from assms(1) that have la: "j < length a" "length (a ! j) = 3"
      by (simp_all add: is_matrix_def)
    from assms(2) have lb: "length b = 3"
      by (simp add: is_matrix_def)
    from la that have "?q ! j ! i = dot (row b i) (a ! j)"
      by (simp add: mul_def)
    also have "\<dots> = 0 + row b i ! 0 * a ! j ! 0 + row b i ! 1 * a ! j ! 1
                       + row b i ! 2 * a ! j ! 2"
      using lb la(2) by (intro dot_3) (simp_all add: row_def)
    finally show ?thesis
      using lb by (simp add: row_3)
  qed
  from eq m el show "\<exists>q. matmul (Matrix3x2, b) (Matrix2x3, a) = Inr (Matrix2x2, q) \<and>
              is_matrix Matrix2x2 q \<and>
              (\<forall>j < 2. \<forall>i < 2. q ! j ! i =
                 0 + b ! 0 ! i * a ! j ! 0 + b ! 1 ! i * a ! j ! 1 + b ! 2 ! i * a ! j ! 2)"
    by blast
qed

theorem matmul_2x3_by_3x2_witness:
  "is_matrix Matrix2x3 [[1, 2, 3], [4, 5, 6 :: int]] \<and>
   is_matrix Matrix3x2 [[1, 0], [0, 1], [1, 1 :: int]] \<and>
   matmul (Matrix2x3, [[1, 2, 3], [4, 5, 6 :: int]]) (Matrix3x2, [[1, 0], [0, 1], [1, 1]])
     = Inr (Matrix3x3, [[1, 2, 3], [4, 5, 6], [5, 7, 9]]) \<and>
   matmul (Matrix3x2, [[1, 0], [0, 1], [1, 1]]) (Matrix2x3, [[1, 2, 3], [4, 5, 6 :: int]])
     = Inr (Matrix2x2, [[4, 5], [10, 11]])"
proof -
  let ?a = "[[1, 2, 3], [4, 5, 6 :: int]]"
  let ?b = "[[1, 0], [0, 1], [1, 1 :: int]]"
  have ha: "is_matrix Matrix2x3 ?a" and hb: "is_matrix Matrix3x2 ?b"
    by (simp_all add: is_matrix_def)
  have e1: "matmul (Matrix2x3, ?a) (Matrix3x2, ?b) = Inr (Matrix3x3, [[1, 2, 3], [4, 5, 6], [5, 7, 9]])"
    by code_simp
  have e2: "matmul (Matrix3x2, ?b) (Matrix2x3, ?a) = Inr (Matrix2x2, [[4, 5], [10, 11]])"
    by code_simp
  from matmul_2x3_by_3x2 [OF ha hb] ha hb e1 e2 show ?thesis
    by simp
qed

text \<open>
  C4 as stated fails: the product of a (2\<times>3) matrix by a (3\<times>2) matrix, here with small
  integer entries, is a (3\<times>3) matrix, not a (2\<times>2) one.
\<close>

theorem matmul_2x3_by_3x2_counterexample:
  "matmul (Matrix2x3, [[1, 2, 3], [4, 5, 6 :: int]]) (Matrix3x2, [[1, 0], [0, 1], [1, 1]])
     = Inr (Matrix3x3, [[1, 2, 3], [4, 5, 6], [5, 7, 9]]) \<and>
   Matrix3x3 \<noteq> Matrix2x2 \<and> Cols Matrix3x3 = 3 \<and> Rows Matrix3x3 = 3"
  by code_simp

text \<open>
  C5. Set-then-get on a column round-trips: for a matrix \<open>m\<close>, an index \<open>i < Cols\<close> and a
  vector \<open>v\<close> of length \<open>Rows\<close>, the call \<open>m[i] = v\<close> succeeds, leaves a matrix of the
  same class, and \<open>m[i]\<close> then returns exactly \<open>v\<close>.
\<close>

theorem setitem_getitem_col_roundtrip:
  assumes "is_matrix T m" and "i < Cols T" and "length v = Rows T"
  shows "fst (setitem_col T m i v) = Inr () \<and>
         is_matrix T (snd (setitem_col T m i v)) \<and>
         getitem_col T (snd (setitem_col T m i v)) i = Inr v"
proof -
  from assms(1,2) have "i < length m"
    by (simp add: is_matrix_def)
  moreover from assms(1,3) have "is_matrix T (m[i := v])"
    by (rule is_matrix_update_col)
  ultimately show ?thesis
    using assms(2) by (simp add: setitem_col_def getitem_col_def)
qed

theorem setitem_getitem_col_roundtrip_witness:
  "is_matrix Matrix3x2 [[1, 2], [3, 4], [5, 6 :: int]] \<and> (2::nat) < Cols Matrix3x2 \<and>
   length [7, 8 :: int] = Rows Matrix3x2 \<and>
   snd (setitem_col Matrix3x2 [[1, 2], [3, 4], [5, 6 :: int]] 2 [7, 8]) = [[1, 2], [3, 4], [7, 8]] \<and>
   getitem_col Matrix3x2 (snd (setitem_col Matrix3x2 [[1, 2], [3, 4], [5, 6 :: int]] 2 [7, 8])) 2
     = Inr [7, 8]"
proof -
  have h1: "is_matrix Matrix3x2 [[1, 2], [3, 4], [5, 6 :: int]]"
    by (simp add: is_matrix_def)
  have h2: "(2::nat) < Cols Matrix3x2" by simp
  have h3: "length [7, 8 :: int] = Rows Matrix3x2" by simp
  have "snd (setitem_col Matrix3x2 [[1, 2], [3, 4], [5, 6 :: int]] 2 [7, 8])
          = [[1, 2], [3, 4], [7, 8]]"
    by (simp add: setitem_col_def)
  with h1 h2 h3 setitem_getitem_col_roundtrip [OF h1 h2 h3] show ?thesis
    by simp
qed

section \<open>Diagonal round trip\<close>

text \<open>
  C6. For a vector \<open>v\<close> of length \<open>min(Cols, Rows)\<close>, the matrix built by
  \<open>from_diagonal(v)\<close> is a matrix of the class, has the values of \<open>v\<close> on its main
  diagonal and zero everywhere else, and its \<open>diagonal()\<close> is exactly \<open>v\<close>.
\<close>

theorem from_diagonal_roundtrip:
  assumes "length v = DiagonalSize T"
  shows "is_matrix T (from_diagonal T v) \<and>
         (\<forall>c < Cols T. \<forall>r < Rows T.
            from_diagonal T v ! c ! r = (if r = c then v ! c else 0)) \<and>
         diagonal T (from_diagonal T v) = v"
proof (intro conjI)
  show "is_matrix T (from_diagonal T v)"
    by (auto simp: is_matrix_def from_diagonal_def fromDiagonal_def)
  show "\<forall>c < Cols T. \<forall>r < Rows T. from_diagonal T v ! c ! r = (if r = c then v ! c else 0)"
    by (simp add: from_diagonal_def fromDiagonal_def)
  show "diagonal T (from_diagonal T v) = v"
  proof (rule nth_equalityI)
    show "length (diagonal T (from_diagonal T v)) = length v"
      using assms by (simp add: diagonal_def)
  next
    fix i assume "i < length (diagonal T (from_diagonal T v))"
    then have "i < Cols T" and "i < Rows T"
      by (simp_all add: diagonal_def DiagonalSize_def)
    then show "diagonal T (from_diagonal T v) ! i = v ! i"
      by (simp add: diagonal_def DiagonalSize_def from_diagonal_def fromDiagonal_def)
  qed
qed

theorem from_diagonal_roundtrip_witness:
  "length [5, 6 :: int] = DiagonalSize Matrix4x2 \<and>
   from_diagonal Matrix4x2 [5, 6 :: int] = [[5, 0], [0, 6], [0, 0], [0, 0]] \<and>
   diagonal Matrix4x2 (from_diagonal Matrix4x2 [5, 6 :: int]) = [5, 6]"
proof -
  have h: "length [5, 6 :: int] = DiagonalSize Matrix4x2"
    by (simp add: DiagonalSize_def)
  have e: "from_diagonal Matrix4x2 [5, 6 :: int] = [[5, 0], [0, 6], [0, 0], [0, 0]]"
    by code_simp
  from from_diagonal_roundtrip [OF h] h e show ?thesis
    by simp
qed

text \<open>
  C9. The setters change only the addressed part: after \<open>m[i] = v\<close> with \<open>i\<close> in range,
  every column \<open>j \<noteq> i\<close> reads as before; after \<open>m[(col, row)] = x\<close> with the pair in
  range, every other element reads as before.
\<close>

theorem setitem_frame:
  assumes "is_matrix T m"
  shows "(i < Cols T \<and> j \<noteq> i \<longrightarrow>
            getitem_col T (snd (setitem_col T m i v)) j = getitem_col T m j) \<and>
         (c < Cols T \<and> r < Rows T \<and> (c', r') \<noteq> (c, r) \<longrightarrow>
            getitem_elem T (snd (setitem_elem T m (c, r) x)) (c', r')
              = getitem_elem T m (c', r'))"
proof (intro conjI impI)
  assume "i < Cols T \<and> j \<noteq> i"
  then show "getitem_col T (snd (setitem_col T m i v)) j = getitem_col T m j"
    by (simp add: setitem_col_def getitem_col_def)
next
  assume a: "c < Cols T \<and> r < Rows T \<and> (c', r') \<noteq> (c, r)"
  with assms have len: "c < length m"
    by (simp add: is_matrix_def)
  show "getitem_elem T (snd (setitem_elem T m (c, r) x)) (c', r') = getitem_elem T m (c', r')"
  proof (cases "c' = c")
    case True
    with a have "r' \<noteq> r" by simp
    with True a len show ?thesis
      by (simp add: setitem_elem_def getitem_elem_def)
  next
    case False
    with a show ?thesis
      by (simp add: setitem_elem_def getitem_elem_def)
  qed
qed

theorem setitem_frame_witness:
  "is_matrix Matrix2x2 [[1, 2], [3, 4 :: int]] \<and>
   getitem_col Matrix2x2 (snd (setitem_col Matrix2x2 [[1, 2], [3, 4 :: int]] 0 [8, 9])) 1
     = Inr [3, 4] \<and>
   getitem_elem Matrix2x2 (snd (setitem_elem Matrix2x2 [[1, 2], [3, 4 :: int]] (1, 0) 7)) (1, 1)
     = Inr 4"
proof -
  have h: "is_matrix Matrix2x2 [[1, 2], [3, 4 :: int]]"
    by (simp add: is_matrix_def)
  have g1: "getitem_col Matrix2x2 [[1, 2], [3, 4 :: int]] 1 = Inr [3, 4]"
    by (simp add: getitem_col_def)
  have g2: "getitem_elem Matrix2x2 [[1, 2], [3, 4 :: int]] (1, 1) = Inr 4"
    by (simp add: getitem_elem_def)
  from h g1 g2 setitem_frame [OF h, of 0 1 "[8, 9]" 1 0 1 1 7] show ?thesis
    by simp
qed

text \<open>
  C10. Failed index writes are atomic: \<open>m[i] = v\<close> with \<open>i \<ge> Cols\<close>, and
  \<open>m[(col, row)] = x\<close> with \<open>col \<ge> Cols\<close> or \<open>row \<ge> Rows\<close>, end with IndexError and
  leave \<open>m\<close> exactly as it was.
\<close>

theorem failed_setitem_unchanged:
  "(i \<ge> Cols T \<longrightarrow> setitem_col T m i v = (Inl IndexError, m)) \<and>
   (c \<ge> Cols T \<or> r \<ge> Rows T \<longrightarrow> setitem_elem T m (c, r) x = (Inl IndexError, m))"
  by (simp add: setitem_col_def setitem_elem_def)

theorem failed_setitem_unchanged_witness:
  "Cols Matrix4x2 \<le> 4 \<and> Rows Matrix4x2 \<le> 5 \<and>
   setitem_col Matrix4x2 [[1, 2], [3, 4], [5, 6], [7, 8 :: int]] 4 [0, 0]
     = (Inl IndexError, [[1, 2], [3, 4], [5, 6], [7, 8]]) \<and>
   setitem_elem Matrix4x2 [[1, 2], [3, 4], [5, 6], [7, 8 :: int]] (0, 5) 0
     = (Inl IndexError, [[1, 2], [3, 4], [5, 6], [7, 8]])"
  using failed_setitem_unchanged
          [of Matrix4x2 4 "[[1, 2], [3, 4], [5, 6], [7, 8 :: int]]" "[0, 0]" 0 5 0]
  by simp

end
